theory Spec2Isabelle
  imports Main "HOL-Library.Word" "HOL-Library.Sublist" "HOL-Library.AList"
begin

section \<open>Python values\<close>

text \<open>
  The client moves JSON data around without looking at its type, so the model has one type
  of Python values. A dict is an association list in insertion order whose keys are strings
  (the decoded JSON objects and the request bodies of this library have no other keys); a
  float is its 64 bits, since the library never computes with one.
\<close>

datatype pyval =
    PNone
  | PBool bool
  | PInt int
  | PFloat "64 word"
  | PStr string
  | PList "pyval list"
  | PDict "(string \<times> pyval) list"

text \<open>
  The exceptions the source names, and \<open>Raised c\<close> for an exception of any other class
  \<open>c\<close> (a timeout, a transport error, a JSON or token decoding error, a TypeError).
\<close>

datatype exn =
    NotauthenticatedException
  | ExpiredSignatureError
  | AttributeError
  | Raised string

text \<open>\<open>d.get(k)\<close> on a dict: the value stored under \<open>k\<close>, or \<open>None\<close> when there is none.\<close>

definition dict_get :: "(string \<times> pyval) list \<Rightarrow> string \<Rightarrow> pyval" where
  "dict_get d k = (case map_of d k of None \<Rightarrow> PNone | Some v \<Rightarrow> v)"

text \<open>
  \<open>x.get(k)\<close> on any value: only a dict has the method; on \<open>None\<close>, a number, a string
  or a list the attribute lookup raises AttributeError.
\<close>

fun py_get :: "pyval \<Rightarrow> string \<Rightarrow> exn + pyval" where
  "py_get (PDict d) k = Inr (dict_get d k)"
| "py_get _ k = Inl AttributeError"

text \<open>\<open>d[k] = v\<close>: replaces the value of an existing key in place, appends a new key.\<close>

definition dict_set :: "(string \<times> pyval) list \<Rightarrow> string \<Rightarrow> pyval \<Rightarrow> (string \<times> pyval) list" where
  "dict_set d k v = AList.update k v d"

section \<open>The libraries\<close>

text \<open>
  A naive \<open>datetime\<close> is its position on the time line in microseconds; \<open>>\<close> on two of
  them compares the positions.
\<close>

type_synonym datetime = int

text \<open>The HTTP request handed to \<open>ClientSession.request\<close>, and what comes back.\<close>

record request =
  r_session :: nat
  r_method :: string
  r_url :: string
  r_json :: pyval
  r_headers :: "(string \<times> pyval) list"
  r_timeout :: int

record response =
  resp_status :: int
  resp_content_type :: "string option"
  resp_text_utf8 :: "exn + string"
  resp_json :: "exn + pyval"
  resp_text :: "exn + string"

text \<open>
  The world outside the client: how many \<open>ClientSession\<close> objects exist (their handles are
  \<open>0..<next_session\<close>), which handles the request helper constructed (in order), which
  sessions are closed, and every call of \<open>ClientSession.request\<close> made so far.
  Closing a session that is already closed changes nothing, as in aiohttp.
\<close>

record world =
  next_session :: nat
  created :: "nat list"
  closed :: "nat set"
  sent :: "request list"

text \<open>
  The code outside this repository, taken as parameters:
  \<^item> \<open>jwt_decode t\<close> is \<open>jwt.decode(t, options={"verify_signature": False})\<close>: the claims of
    the token (a dict), or the exception the library raises (\<open>ExpiredSignatureError\<close> is
    the one a library raises that checks the expiry and finds it passed);
  \<^item> \<open>fromtimestamp x\<close> is \<open>datetime.fromtimestamp(x)\<close>, which raises on a value that is not
    a number or is out of the range of \<open>datetime\<close>;
  \<^item> \<open>format x\<close> is the text an f-string puts in place of \<open>{x}\<close>;
  \<^item> \<open>transport w r\<close> is the round trip of request \<open>r\<close> under its timeout in world \<open>w\<close>:
    the response, or the exception raised (a timeout, a transport error, a closed session).
\<close>

record libs =
  jwt_decode :: "pyval \<Rightarrow> exn + (string \<times> pyval) list"
  fromtimestamp :: "pyval \<Rightarrow> exn + datetime"
  format :: "pyval \<Rightarrow> string"
  transport :: "world \<Rightarrow> request \<Rightarrow> exn + response"

section \<open>models.py\<close>

subsection \<open>Auth\<close>

text \<open>
  \<open>Auth.__init__\<close> assigns \<open>session_token\<close> and \<open>access_token\<close> first; \<open>object_id\<close> and
  \<open>access_token_expires\<close> are assigned inside the \<open>with suppress(...)\<close> block, and the class
  gives them no default, so until then the attribute does not exist: \<open>None\<close> below is
  "not set", and \<open>Some PNone\<close> is the Python value \<open>None\<close>.
\<close>

record Auth =
  object_id :: "pyval option"
  session_token :: pyval
  access_token :: pyval
  access_token_expires :: "datetime option"

text \<open>
  \<open>with suppress(jwt.ExpiredSignatureError)\<close>: an \<open>ExpiredSignatureError\<close> raised in the
  block ends the block with what was assigned so far; any other exception leaves the
  constructor.
\<close>

definition suppress :: "exn \<Rightarrow> Auth \<Rightarrow> exn + Auth" where
  "suppress e a = (if e = ExpiredSignatureError then Inr a else Inl e)"

definition Auth_init :: "libs \<Rightarrow> pyval \<Rightarrow> pyval \<Rightarrow> exn + Auth" where
  "Auth_init L st at =
     (let a0 = \<lparr>object_id = None, session_token = st, access_token = at,
                access_token_expires = None\<rparr>
      in case jwt_decode L at of
           Inl e \<Rightarrow> suppress e a0
         | Inr decoded_jwt \<Rightarrow>
             (let a1 = a0\<lparr>object_id := Some (dict_get decoded_jwt ''sub'')\<rparr>
              in case fromtimestamp L (dict_get decoded_jwt ''exp'') of
                   Inl e \<Rightarrow> suppress e a1
                 | Inr t \<Rightarrow> Inr (a1\<lparr>access_token_expires := Some t\<rparr>)))"

text \<open>
  \<open>is_access_token_expired\<close> reads the clock (\<open>now\<close>) and the attribute; reading an attribute
  that was never set raises AttributeError.
\<close>

definition is_access_token_expired :: "datetime \<Rightarrow> Auth \<Rightarrow> exn + bool" where
  "is_access_token_expired now a =
     (case access_token_expires a of
        None \<Rightarrow> Inl AttributeError
      | Some t \<Rightarrow> Inr (now > t))"

definition Auth_from_dict :: "libs \<Rightarrow> pyval \<Rightarrow> exn + Auth" where
  "Auth_from_dict L data =
     (case py_get data ''sessionToken'' of
        Inl e \<Rightarrow> Inl e
      | Inr st \<Rightarrow>
          (case py_get data ''accessToken'' of
             Inl e \<Rightarrow> Inl e
           | Inr at \<Rightarrow> Auth_init L st at))"

subsection \<open>User and Statistics\<close>

text \<open>
  Sequencing of Python expressions: the first one that raises ends the evaluation.
\<close>

definition and_then :: "exn + 'a \<Rightarrow> ('a \<Rightarrow> exn + 'b) \<Rightarrow> exn + 'b" where
  "and_then r f = (case r of Inl e \<Rightarrow> Inl e | Inr v \<Rightarrow> f v)"

text \<open>
  The dataclasses do not check the annotated types, so every field holds whatever value the
  payload had.
\<close>

record User =
  fourfouroneone_ev_enabled :: pyval
  fourfouroneone_parking_enabled :: pyval
  fourfouroneone_payment_method_set :: pyval
  access_token :: pyval
  first_name :: pyval
  gender :: pyval
  has_4411_account :: pyval
  object_id :: pyval
  parking_enabled :: pyval
  session_token :: pyval
  statistics_top_speed :: pyval
  statistics_top_sprint :: pyval
  statistics_travel_distance :: pyval
  statistics_travel_time :: pyval
  username :: pyval
  vehicle_type :: pyval

definition User_from_dict :: "pyval \<Rightarrow> exn + User" where
  "User_from_dict data =
     and_then (py_get data ''4411EvEnabled'') (\<lambda>v1.
     and_then (py_get data ''4411ParkingEnabled'') (\<lambda>v2.
     and_then (py_get data ''4411PaymentMethodSet'') (\<lambda>v3.
     and_then (py_get data ''accessToken'') (\<lambda>v4.
     and_then (py_get data ''firstName'') (\<lambda>v5.
     and_then (py_get data ''gender'') (\<lambda>v6.
     and_then (py_get data ''has4411Account'') (\<lambda>v7.
     and_then (py_get data ''objectId'') (\<lambda>v8.
     and_then (py_get data ''parkingEnabled'') (\<lambda>v9.
     and_then (py_get data ''sessionToken'') (\<lambda>v10.
     and_then (and_then (py_get data ''statistics'') (\<lambda>s. py_get s ''topSpeed'')) (\<lambda>v11.
     and_then (and_then (py_get data ''statistics'') (\<lambda>s. py_get s ''topSprint'')) (\<lambda>v12.
     and_then (and_then (py_get data ''statistics'') (\<lambda>s. py_get s ''travelDistance'')) (\<lambda>v13.
     and_then (and_then (py_get data ''statistics'') (\<lambda>s. py_get s ''travelTime'')) (\<lambda>v14.
     and_then (py_get data ''username'') (\<lambda>v15.
     and_then (py_get data ''vehicleType'') (\<lambda>v16.
     Inr \<lparr>fourfouroneone_ev_enabled = v1,
          fourfouroneone_parking_enabled = v2,
          fourfouroneone_payment_method_set = v3,
          User.access_token = v4,
          first_name = v5,
          gender = v6,
          has_4411_account = v7,
          User.object_id = v8,
          parking_enabled = v9,
          User.session_token = v10,
          statistics_top_speed = v11,
          statistics_top_sprint = v12,
          statistics_travel_distance = v13,
          statistics_travel_time = v14,
          username = v15,
          vehicle_type = v16\<rparr>))))))))))))))))"

record Statistics =
  ambassador :: pyval
  countries_visited :: pyval
  fines_avoided :: pyval
  km_driven :: pyval
  navigation_finished :: pyval
  parked_once :: pyval
  provinces_visited :: pyval
  recruiter :: pyval
  sec_driven :: pyval
  times_in_traffic :: pyval
  top_100_sprint_ms :: pyval
  top_consecutive_days :: pyval
  top_speed :: pyval
  total_ratings :: pyval

definition Statistics_from_dict :: "pyval \<Rightarrow> exn + Statistics" where
  "Statistics_from_dict data0 =
     and_then (py_get data0 ''result'') (\<lambda>data.
     and_then (py_get data ''ambassador'') (\<lambda>v1.
     and_then (py_get data ''countries_visited'') (\<lambda>v2.
     and_then (py_get data ''fines_avoided'') (\<lambda>v3.
     and_then (py_get data ''km_driven'') (\<lambda>v4.
     and_then (py_get data ''navigation_finished'') (\<lambda>v5.
     and_then (py_get data ''parked_once'') (\<lambda>v6.
     and_then (py_get data ''provinces_visited'') (\<lambda>v7.
     and_then (py_get data ''recruiter'') (\<lambda>v8.
     and_then (py_get data ''sec_driven'') (\<lambda>v9.
     and_then (py_get data ''times_in_traffic'') (\<lambda>v10.
     and_then (py_get data ''top_100_sprint_ms'') (\<lambda>v11.
     and_then (py_get data ''top_consecutive_days'') (\<lambda>v12.
     and_then (py_get data ''top_speed'') (\<lambda>v13.
     and_then (py_get data ''total_ratings'') (\<lambda>v14.
     Inr \<lparr>ambassador = v1,
          countries_visited = v2,
          fines_avoided = v3,
          km_driven = v4,
          navigation_finished = v5,
          parked_once = v6,
          provinces_visited = v7,
          recruiter = v8,
          sec_driven = v9,
          times_in_traffic = v10,
          top_100_sprint_ms = v11,
          top_consecutive_days = v12,
          top_speed = v13,
          total_ratings = v14\<rparr>)))))))))))))))"

section \<open>flitsmeister.py\<close>

definition ENDPOINT :: string where
  "ENDPOINT = ''https://account.flitsmeister.app/''"

definition METH_GET :: string where
  "METH_GET = ''GET''"

definition METH_POST :: string where
  "METH_POST = ''POST''"

text \<open>
  The attributes of an \<open>FM\<close> object. \<open>session\<close> is the handle of the \<open>ClientSession\<close> held in
  \<open>_session\<close>, \<open>close_session\<close> is \<open>_close_session\<close> (the class gives it the default False),
  \<open>auth\<close> is \<open>_auth\<close>.
\<close>

record FM =
  session :: "nat option"
  close_session :: bool
  request_timeout :: int
  auth :: "Auth option"

definition FM_init :: "nat option \<Rightarrow> int \<Rightarrow> Auth option \<Rightarrow> FM" where
  "FM_init client_session timeout a =
     \<lparr>session = client_session, close_session = False, request_timeout = timeout, auth = a\<rparr>"

text \<open>
  \<open>_request\<close>. The first two statements create a session when none is held; the headers
  are built next; then comes the one call of \<open>ClientSession.request\<close>, which is recorded
  in \<open>sent\<close> whatever its outcome (the debug log itself is not modelled). An exception of the round trip, of \<open>resp.text("utf-8")\<close>
  (evaluated for the debug log), of \<open>resp.json()\<close> or of \<open>resp.text()\<close> propagates; the
  attributes assigned before it stay assigned.
\<close>

definition ensure_session :: "FM \<Rightarrow> world \<Rightarrow> nat \<times> FM \<times> world" where
  "ensure_session fm w =
     (case session fm of
        None \<Rightarrow>
          (next_session w,
           fm\<lparr>session := Some (next_session w), close_session := True\<rparr>,
           w\<lparr>next_session := Suc (next_session w), created := created w @ [next_session w]\<rparr>)
      | Some h \<Rightarrow> (h, fm, w))"

definition build_headers :: "FM \<Rightarrow> (string \<times> pyval) list" where
  "build_headers fm =
     (let headers = [(''Content-Type'', PStr ''application/json'')]
      in case auth fm of
           None \<Rightarrow> headers
         | Some a \<Rightarrow> dict_set headers ''x-parse-session-token'' (Auth.session_token a))"

definition read_body :: "response \<Rightarrow> exn + pyval" where
  "read_body resp =
     (let content_type = (case resp_content_type resp of None \<Rightarrow> [] | Some c \<Rightarrow> c)
      in if sublist ''application/json'' content_type then resp_json resp
         else and_then (resp_text resp) (\<lambda>t. Inr (PStr t)))"

definition request :: "libs \<Rightarrow> FM \<Rightarrow> world \<Rightarrow> string \<Rightarrow> string \<Rightarrow> pyval \<Rightarrow> (exn + pyval) \<times> FM \<times> world" where
  "request L fm w path method data =
     (case ensure_session fm w of
        (h, fm1, w1) \<Rightarrow>
          (let headers = build_headers fm1;
               url = ENDPOINT @ path;
               req = \<lparr>r_session = h, r_method = method, r_url = url, r_json = data,
                      r_headers = headers, r_timeout = request_timeout fm1\<rparr>;
               w2 = w1\<lparr>sent := sent w1 @ [req]\<rparr>
           in (and_then (transport L w1 req) (\<lambda>resp.
               and_then (resp_text_utf8 resp) (\<lambda>_. read_body resp)),
               fm1, w2)))"

definition login :: "libs \<Rightarrow> FM \<Rightarrow> world \<Rightarrow> pyval \<Rightarrow> pyval \<Rightarrow> (exn + Auth) \<times> FM \<times> world" where
  "login L fm w uname passwd =
     (case request L fm w ''parse/login'' METH_POST
             (PDict [(''_method'', PStr ''GET''), (''username'', uname),
                     (''password'', passwd)]) of
        (response, fm', w') \<Rightarrow> (and_then response (Auth_from_dict L), fm', w'))"

text \<open>
  \<open>user\<close> formats \<open>self._auth.object_id\<close> into the path before it calls \<open>_request\<close>; on an
  Auth whose \<open>object_id\<close> was never set that read raises AttributeError.
\<close>

definition user :: "libs \<Rightarrow> FM \<Rightarrow> world \<Rightarrow> (exn + User) \<times> FM \<times> world" where
  "user L fm w =
     (case auth fm of
        None \<Rightarrow> (Inl NotauthenticatedException, fm, w)
      | Some a \<Rightarrow>
          (case Auth.object_id a of
             None \<Rightarrow> (Inl AttributeError, fm, w)
           | Some oid \<Rightarrow>
               (case request L fm w (''parse/classes/_User/'' @ format L oid) METH_GET
                       (PDict []) of
                  (response, fm', w') \<Rightarrow> (and_then response User_from_dict, fm', w'))))"

definition statistics :: "libs \<Rightarrow> FM \<Rightarrow> world \<Rightarrow> (exn + Statistics) \<times> FM \<times> world" where
  "statistics L fm w =
     (case auth fm of
        None \<Rightarrow> (Inl NotauthenticatedException, fm, w)
      | Some a \<Rightarrow>
          (case request L fm w ''parse/functions/fetchStatistics'' METH_POST (PDict []) of
             (response, fm', w') \<Rightarrow> (and_then response Statistics_from_dict, fm', w')))"

text \<open>
  \<open>close\<close>: a \<open>ClientSession\<close> object is truthy, so \<open>self._session and self._close_session\<close>
  holds when a session is held and the flag is set. Neither attribute is reset.
\<close>

definition close :: "FM \<Rightarrow> world \<Rightarrow> (exn + unit) \<times> FM \<times> world" where
  "close fm w =
     (case session fm of
        None \<Rightarrow> (Inr (), fm, w)
      | Some h \<Rightarrow>
          (if close_session fm then (Inr (), fm, w\<lparr>closed := insert h (closed w)\<rparr>)
           else (Inr (), fm, w)))"

definition aenter :: "FM \<Rightarrow> world \<Rightarrow> (exn + FM) \<times> FM \<times> world" where
  "aenter fm w = (Inr fm, fm, w)"

definition aexit :: "FM \<Rightarrow> world \<Rightarrow> (exn + unit) \<times> FM \<times> world" where
  "aexit fm w = close fm w"

text \<open>
  A caller uses a client by calling its methods one after the other; a call that raises
  leaves the client as it was at the raise, and the caller may go on.
\<close>

datatype call = Login pyval pyval | GetUser | GetStatistics | Close | AEnter | AExit

datatype outcome = Returned | Failed exn

definition outcome_of :: "exn + 'a \<Rightarrow> outcome" where
  "outcome_of r = (case r of Inl e \<Rightarrow> Failed e | Inr _ \<Rightarrow> Returned)"

fun exec :: "libs \<Rightarrow> call \<Rightarrow> FM \<times> world \<Rightarrow> outcome \<times> FM \<times> world" where
  "exec L (Login u p) (fm, w) = (case login L fm w u p of (r, s) \<Rightarrow> (outcome_of r, s))"
| "exec L GetUser (fm, w) = (case user L fm w of (r, s) \<Rightarrow> (outcome_of r, s))"
| "exec L GetStatistics (fm, w) = (case statistics L fm w of (r, s) \<Rightarrow> (outcome_of r, s))"
| "exec L Close (fm, w) = (case close fm w of (r, s) \<Rightarrow> (outcome_of r, s))"
| "exec L AEnter (fm, w) = (case aenter fm w of (r, s) \<Rightarrow> (outcome_of r, s))"
| "exec L AExit (fm, w) = (case aexit fm w of (r, s) \<Rightarrow> (outcome_of r, s))"

fun run :: "libs \<Rightarrow> call list \<Rightarrow> FM \<times> world \<Rightarrow> FM \<times> world" where
  "run L [] s = s"
| "run L (c # cs) s = run L cs (snd (exec L c s))"

section \<open>A mock of the libraries\<close>

text \<open>
  Concrete libraries on which the client can be run: a token library that checks the expiry
  (it knows one valid token and one that it reports as expired), a clock conversion for integer seconds, and a server that answers
  every request on an open session with a JSON body chosen by the URL.
\<close>

definition mock_jwt_decode :: "pyval \<Rightarrow> exn + (string \<times> pyval) list" where
  "mock_jwt_decode t =
     (if t = PStr ''valid.jwt'' then Inr [(''sub'', PStr ''1EqBUC03nK''), (''exp'', PInt 1717315657)]
      else if t = PStr ''expired.jwt'' then Inl ExpiredSignatureError
      else Inl (Raised ''DecodeError''))"

definition mock_fromtimestamp :: "pyval \<Rightarrow> exn + datetime" where
  "mock_fromtimestamp x = (case x of PInt n \<Rightarrow> Inr (n * 1000000) | _ \<Rightarrow> Inl (Raised ''TypeError''))"

definition mock_format :: "pyval \<Rightarrow> string" where
  "mock_format x = (case x of PStr s \<Rightarrow> s | _ \<Rightarrow> ''None'')"

definition login_body :: pyval where
  "login_body = PDict [(''objectId'', PStr ''1EqBUC03nK''), (''sessionToken'', PStr ''r:b866''),
                       (''accessToken'', PStr ''valid.jwt'')]"

definition user_body :: pyval where
  "user_body = PDict [(''4411EvEnabled'', PBool False), (''firstName'', PStr ''Dana''),
                      (''statistics'', PDict [(''topSpeed'', PInt 413), (''topSprint'', PInt 1),
                         (''travelDistance'', PInt 59), (''travelTime'', PInt 158824560000)])]"

definition statistics_body :: pyval where
  "statistics_body = PDict [(''result'', PDict [(''fines_avoided'', PInt 210),
                         (''km_driven'', PInt 63550),
                         (''countries_visited'', PList [PStr ''NL'', PStr ''DE'', PStr ''BE''])])]"

definition mock_transport :: "world \<Rightarrow> request \<Rightarrow> exn + response" where
  "mock_transport w req =
     (if r_session req \<in> closed w then Inl (Raised ''RuntimeError'')
      else Inr \<lparr>resp_status = 200,
                resp_content_type = Some ''application/json; charset=utf-8'',
                resp_text_utf8 = Inr ''...'',
                resp_json = Inr (if r_url req = ENDPOINT @ ''parse/login'' then login_body
                                 else if r_url req = ENDPOINT @ ''parse/functions/fetchStatistics''
                                 then statistics_body else user_body),
                resp_text = Inr ''...''\<rparr>)"

definition mock_libs :: libs where
  "mock_libs = \<lparr>jwt_decode = mock_jwt_decode, fromtimestamp = mock_fromtimestamp,
                 format = mock_format, transport = mock_transport\<rparr>"

definition world0 :: world where
  "world0 = \<lparr>next_session = 1, created = [], closed = {}, sent = []\<rparr>"

text \<open>
  An Auth from an earlier login, and the request a login sends through session \<open>h\<close> while
  that Auth is held.
\<close>

definition held_auth :: Auth where
  "held_auth = \<lparr>Auth.object_id = Some (PStr ''1EqBUC03nK''), Auth.session_token = PStr ''r:old'',
                 Auth.access_token = PStr ''old.jwt'',
                 access_token_expires = Some 1700000000000000\<rparr>"

definition sent_login :: "nat \<Rightarrow> request" where
  "sent_login h =
     \<lparr>r_session = h, r_method = ''POST'',
      r_url = ''https://account.flitsmeister.app/parse/login'',
      r_json = PDict [(''_method'', PStr ''GET''), (''username'', PStr ''u''),
                      (''password'', PStr ''p'')],
      r_headers = [(''Content-Type'', PStr ''application/json''),
                   (''x-parse-session-token'', PStr ''r:old'')],
      r_timeout = 10\<rparr>"

section \<open>The token library as the client calls it\<close>




section \<open>The session invariant\<close>

text \<open>
  Relative to the world \<open>w0\<close> in which the client was constructed: while the flag
  \<open>close_session\<close> is set, the client holds a session and that session is the one session
  the request helper has constructed since; while it is not set, the helper has constructed
  nothing and the client has closed nothing.
\<close>

definition session_inv :: "world \<Rightarrow> FM \<times> world \<Rightarrow> bool" where
  "session_inv w0 s =
     (case s of (fm, w) \<Rightarrow>
        (if close_session fm
         then (case session fm of None \<Rightarrow> False | Some h \<Rightarrow> created w = created w0 @ [h])
         else created w = created w0 \<and> closed w = closed w0))"

section \<open>Effects of the operations\<close>

lemma request_effect:
  assumes "request L fm w path m data = (r, fm', w')"
  shows "auth fm' = auth fm" and "request_timeout fm' = request_timeout fm"
    and "closed w' = closed w"
    and "session fm = None \<Longrightarrow> session fm' = Some (next_session w) \<and> close_session fm'
           \<and> created w' = created w @ [next_session w] \<and> next_session w' = Suc (next_session w)"
    and "session fm = Some h \<Longrightarrow> fm' = fm \<and> created w' = created w \<and> next_session w' = next_session w"
    and "\<exists>req. sent w' = sent w @ [req] \<and> r_headers req = build_headers fm"
  using assms
  by (auto simp: request_def ensure_session_def build_headers_def Let_def split: option.splits)

lemma login_calls_request:
  "login L fm w u p = (r, fm', w') \<Longrightarrow>
     \<exists>r0. request L fm w ''parse/login'' METH_POST
            (PDict [(''_method'', PStr ''GET''), (''username'', u), (''password'', p)]) = (r0, fm', w')
          \<and> r = and_then r0 (Auth_from_dict L)"
  by (auto simp: login_def split: prod.splits)

lemma user_calls_request:
  "user L fm w = (r, fm', w') \<Longrightarrow>
     (fm' = fm \<and> w' = w) \<or> (\<exists>r0 path. request L fm w path METH_GET (PDict []) = (r0, fm', w'))"
  by (auto simp: user_def split: prod.splits option.splits)

lemma statistics_calls_request:
  "statistics L fm w = (r, fm', w') \<Longrightarrow>
     (fm' = fm \<and> w' = w) \<or> (\<exists>r0 path. request L fm w path METH_POST (PDict []) = (r0, fm', w'))"
  by (auto simp: statistics_def split: prod.splits option.splits)

lemma exec_cases:
  assumes "exec L c (fm, w) = (r, fm', w')"
  shows "(fm' = fm \<and> w' = w)
       \<or> (\<exists>r0 path m data. request L fm w path m data = (r0, fm', w'))
       \<or> (\<exists>r0. close fm w = (r0, fm', w'))"
proof (cases c)
  case (Login u p)
  with assms obtain r1 where "login L fm w u p = (r1, fm', w')"
    by (auto split: prod.splits)
  from login_calls_request [OF this] show ?thesis by blast
next
  case GetUser
  with assms obtain r1 where "user L fm w = (r1, fm', w')"
    by (auto split: prod.splits)
  from user_calls_request [OF this] show ?thesis by blast
next
  case GetStatistics
  with assms obtain r1 where "statistics L fm w = (r1, fm', w')"
    by (auto split: prod.splits)
  from statistics_calls_request [OF this] show ?thesis by blast
next
  case Close
  with assms show ?thesis by (auto split: prod.splits)
next
  case AEnter
  with assms show ?thesis by (auto simp: aenter_def split: prod.splits)
next
  case AExit
  with assms show ?thesis by (auto simp: aexit_def split: prod.splits)
qed

lemma close_effect:
  assumes "close fm w = (r, fm', w')"
  shows "fm' = fm" and "r = Inr ()" and "created w' = created w" and "sent w' = sent w"
    and "next_session w' = next_session w"
    and "closed w' = (case session fm of None \<Rightarrow> closed w
                       | Some h \<Rightarrow> if close_session fm then insert h (closed w) else closed w)"
  using assms by (auto simp: close_def split: option.splits if_splits)

lemma exec_session_inv:
  assumes "session_inv w0 (fm, w)" and "exec L c (fm, w) = (r, fm', w')"
  shows "session_inv w0 (fm', w')"
proof -
  from exec_cases [OF assms(2)] consider
      "fm' = fm \<and> w' = w"
    | r0 path m data where "request L fm w path m data = (r0, fm', w')"
    | r0 where "close fm w = (r0, fm', w')" by blast
  then show ?thesis
  proof cases
    case 1
    with assms(1) show ?thesis by simp
  next
    case 2
    show ?thesis
    proof (cases "session fm")
      case None
      with assms(1) have "created w = created w0" "\<not> close_session fm"
        by (auto simp: session_inv_def split: if_splits)
      with request_effect(4) [OF 2 None] show ?thesis
        by (simp add: session_inv_def)
    next
      case (Some h)
      with request_effect(5) [OF 2 Some] request_effect(3) [OF 2] assms(1) show ?thesis
        by (auto simp: session_inv_def split: if_splits)
    qed
  next
    case 3
    with close_effect [OF 3] assms(1) show ?thesis
      by (auto simp: session_inv_def split: option.splits if_splits)
  qed
qed

lemma exec_keeps_session:
  assumes "session fm = Some h" and "exec L c (fm, w) = (r, fm', w')"
  shows "fm' = fm"
  using exec_cases [OF assms(2)] request_effect(5) [OF _ assms(1)] close_effect(1)
  by blast

lemma run_session_inv:
  "session_inv w0 s \<Longrightarrow> session_inv w0 (run L cs s)"
proof (induction cs arbitrary: s)
  case Nil
  then show ?case by simp
next
  case (Cons c cs)
  obtain fm w where s: "s = (fm, w)" by (cases s)
  obtain r fm' w' where e: "exec L c (fm, w) = (r, fm', w')" by (cases "exec L c (fm, w)")
  from exec_session_inv [OF _ e] Cons.prems s have "session_inv w0 (fm', w')" by simp
  from Cons.IH [OF this] s e show ?case by simp
qed

lemma run_keeps_session:
  "session fm = Some h \<Longrightarrow> fst (run L cs (fm, w)) = fm"
proof (induction cs arbitrary: w)
  case Nil
  then show ?case by simp
next
  case (Cons c cs)
  obtain r fm' w' where e: "exec L c (fm, w) = (r, fm', w')" by (cases "exec L c (fm, w)")
  from exec_keeps_session [OF Cons.prems e] have "fm' = fm" .
  with Cons.IH [OF Cons.prems, of w'] e show ?case by simp
qed

lemma init_session_inv: "session_inv w0 (FM_init cs t a, w0)"
  by (simp add: session_inv_def FM_init_def)

lemma build_headers_eq:
  "build_headers fm =
     (case auth fm of
        None \<Rightarrow> [(''Content-Type'', PStr ''application/json'')]
      | Some a \<Rightarrow> [(''Content-Type'', PStr ''application/json''),
                   (''x-parse-session-token'', Auth.session_token a)])"
  by (simp add: build_headers_def dict_set_def split: option.splits)

lemma run_from_init:
  assumes "run L cs (FM_init sess t a, w0) = (fm, w)"
  shows "session_inv w0 (fm, w)"
    and "sess = Some h \<Longrightarrow> fm = FM_init sess t a"
proof -
  from run_session_inv [OF init_session_inv, of w0 L cs sess t a] assms
  show "session_inv w0 (fm, w)" by simp
next
  assume "sess = Some h"
  then have "session (FM_init sess t a) = Some h" by (simp add: FM_init_def)
  from run_keeps_session [OF this, of L cs w0] assms show "fm = FM_init sess t a" by simp
qed

section \<open>Effects of the decoders\<close>

lemma dict_get_absent: "map_of d k = None \<Longrightarrow> dict_get d k = PNone"
  by (simp add: dict_get_def)

lemma User_from_dict_present:
  assumes "map_of d ''statistics'' = Some (PDict s)"
  shows "User_from_dict (PDict d) =
     Inr \<lparr>fourfouroneone_ev_enabled = dict_get d ''4411EvEnabled'',
          fourfouroneone_parking_enabled = dict_get d ''4411ParkingEnabled'',
          fourfouroneone_payment_method_set = dict_get d ''4411PaymentMethodSet'',
          User.access_token = dict_get d ''accessToken'',
          first_name = dict_get d ''firstName'',
          gender = dict_get d ''gender'',
          has_4411_account = dict_get d ''has4411Account'',
          User.object_id = dict_get d ''objectId'',
          parking_enabled = dict_get d ''parkingEnabled'',
          User.session_token = dict_get d ''sessionToken'',
          statistics_top_speed = dict_get s ''topSpeed'',
          statistics_top_sprint = dict_get s ''topSprint'',
          statistics_travel_distance = dict_get s ''travelDistance'',
          statistics_travel_time = dict_get s ''travelTime'',
          username = dict_get d ''username'',
          vehicle_type = dict_get d ''vehicleType''\<rparr>"
proof -
  have "dict_get d ''statistics'' = PDict s"
    using assms by (simp add: dict_get_def)
  then show ?thesis
    by (simp add: User_from_dict_def and_then_def)
qed

lemma Statistics_from_dict_present:
  assumes "map_of d ''result'' = Some (PDict e)"
  shows "Statistics_from_dict (PDict d) =
     Inr \<lparr>ambassador = dict_get e ''ambassador'',
          countries_visited = dict_get e ''countries_visited'',
          fines_avoided = dict_get e ''fines_avoided'',
          km_driven = dict_get e ''km_driven'',
          navigation_finished = dict_get e ''navigation_finished'',
          parked_once = dict_get e ''parked_once'',
          provinces_visited = dict_get e ''provinces_visited'',
          recruiter = dict_get e ''recruiter'',
          sec_driven = dict_get e ''sec_driven'',
          times_in_traffic = dict_get e ''times_in_traffic'',
          top_100_sprint_ms = dict_get e ''top_100_sprint_ms'',
          top_consecutive_days = dict_get e ''top_consecutive_days'',
          top_speed = dict_get e ''top_speed'',
          total_ratings = dict_get e ''total_ratings''\<rparr>"
proof -
  have "dict_get d ''result'' = PDict e"
    using assms by (simp add: dict_get_def)
  then show ?thesis
    by (simp add: Statistics_from_dict_def and_then_def)
qed

section \<open>The client on the mock\<close>

lemma mock_request_own:
  "request mock_libs (FM_init None 10 (Some held_auth)) world0 ''parse/login'' METH_POST
     (PDict [(''_method'', PStr ''GET''), (''username'', PStr ''u''), (''password'', PStr ''p'')])
   = (Inr login_body,
      \<lparr>session = Some 1, close_session = True, request_timeout = 10, auth = Some held_auth\<rparr>,
      \<lparr>next_session = 2, created = [1], closed = {}, sent = [sent_login 1]\<rparr>)"
  by (simp add: request_def ensure_session_def build_headers_eq read_body_def
        FM_init_def world0_def mock_libs_def mock_transport_def held_auth_def sent_login_def
        ENDPOINT_def METH_POST_def and_then_def Let_def)

lemma mock_request_supplied:
  "request mock_libs (FM_init (Some 0) 10 (Some held_auth)) world0 ''parse/login'' METH_POST
     (PDict [(''_method'', PStr ''GET''), (''username'', PStr ''u''), (''password'', PStr ''p'')])
   = (Inr login_body,
      \<lparr>session = Some 0, close_session = False, request_timeout = 10, auth = Some held_auth\<rparr>,
      \<lparr>next_session = 1, created = [], closed = {}, sent = [sent_login 0]\<rparr>)"
  by (simp add: request_def ensure_session_def build_headers_eq read_body_def
        FM_init_def world0_def mock_libs_def mock_transport_def held_auth_def sent_login_def
        ENDPOINT_def METH_POST_def and_then_def Let_def)

lemma mock_decode_login_body:
  "Auth_from_dict mock_libs login_body =
     Inr \<lparr>Auth.object_id = Some (PStr ''1EqBUC03nK''), Auth.session_token = PStr ''r:b866'',
          Auth.access_token = PStr ''valid.jwt'',
          access_token_expires = Some 1717315657000000\<rparr>"
  by (simp add: Auth_from_dict_def Auth_init_def login_body_def dict_get_def mock_libs_def
        mock_jwt_decode_def mock_fromtimestamp_def)

lemma mock_login_own:
  "login mock_libs (FM_init None 10 (Some held_auth)) world0 (PStr ''u'') (PStr ''p'') =
     (Inr \<lparr>Auth.object_id = Some (PStr ''1EqBUC03nK''), Auth.session_token = PStr ''r:b866'',
           Auth.access_token = PStr ''valid.jwt'',
           access_token_expires = Some 1717315657000000\<rparr>,
      \<lparr>session = Some 1, close_session = True, request_timeout = 10, auth = Some held_auth\<rparr>,
      \<lparr>next_session = 2, created = [1], closed = {}, sent = [sent_login 1]\<rparr>)"
  by (simp add: login_def mock_request_own and_then_def mock_decode_login_body)

lemma mock_login_supplied:
  "login mock_libs (FM_init (Some 0) 10 (Some held_auth)) world0 (PStr ''u'') (PStr ''p'') =
     (Inr \<lparr>Auth.object_id = Some (PStr ''1EqBUC03nK''), Auth.session_token = PStr ''r:b866'',
           Auth.access_token = PStr ''valid.jwt'',
           access_token_expires = Some 1717315657000000\<rparr>,
      \<lparr>session = Some 0, close_session = False, request_timeout = 10, auth = Some held_auth\<rparr>,
      \<lparr>next_session = 1, created = [], closed = {}, sent = [sent_login 0]\<rparr>)"
  by (simp add: login_def mock_request_supplied and_then_def mock_decode_login_body)

lemma mock_exec_own:
  "exec mock_libs (Login (PStr ''u'') (PStr ''p'')) (FM_init None 10 (Some held_auth), world0) =
     (Returned,
      \<lparr>session = Some 1, close_session = True, request_timeout = 10, auth = Some held_auth\<rparr>,
      \<lparr>next_session = 2, created = [1], closed = {}, sent = [sent_login 1]\<rparr>)"
  by (simp add: mock_login_own outcome_of_def)

lemma mock_run_own:
  "run mock_libs [Login (PStr ''u'') (PStr ''p'')] (FM_init None 10 (Some held_auth), world0) =
     (\<lparr>session = Some 1, close_session = True, request_timeout = 10, auth = Some held_auth\<rparr>,
      \<lparr>next_session = 2, created = [1], closed = {}, sent = [sent_login 1]\<rparr>)"
  by (simp add: mock_login_own)

lemma mock_run_supplied:
  "run mock_libs [Login (PStr ''u'') (PStr ''p''), Close]
       (FM_init (Some 0) 10 (Some held_auth), world0) =
     (\<lparr>session = Some 0, close_session = False, request_timeout = 10, auth = Some held_auth\<rparr>,
      \<lparr>next_session = 1, created = [], closed = {}, sent = [sent_login 0]\<rparr>)"
  by (simp add: mock_login_supplied close_def)

section \<open>The Auth record\<close>




text \<open>
  Claim C2. On a client that holds no Auth, \<open>user\<close> and \<open>statistics\<close> raise
  \<open>NotauthenticatedException\<close> and leave the client and the world as they were: no session
  is created and no request is sent.
\<close>
theorem unauthenticated_calls_fail_locally:
  assumes "auth fm = None"
  shows "user L fm w = (Inl NotauthenticatedException, fm, w)
       \<and> statistics L fm w = (Inl NotauthenticatedException, fm, w)"
  using assms by (simp add: user_def statistics_def)

theorem unauthenticated_calls_fail_locally_witness:
  "auth (FM_init None 10 None) = None
   \<and> user mock_libs (FM_init None 10 None) world0
        = (Inl NotauthenticatedException, FM_init None 10 None, world0)
   \<and> statistics mock_libs (FM_init None 10 None) world0
        = (Inl NotauthenticatedException, FM_init None 10 None, world0)"
  using unauthenticated_calls_fail_locally [of "FM_init None 10 None" mock_libs world0]
  by (simp add: FM_init_def)

text \<open>
  Claim C3. For a login response with \<open>sessionToken\<close> and \<open>accessToken\<close> keys whose access
  token decodes to claims (no expiry is reported) and whose \<open>exp\<close> claim converts to the
  timestamp \<open>t\<close>, the decoded Auth holds both tokens as they were, its \<open>object_id\<close> is the
  \<open>sub\<close> claim and its \<open>access_token_expires\<close> is \<open>t\<close>.
\<close>
theorem valid_token_decode:
  assumes "map_of d ''sessionToken'' = Some st"
    and "map_of d ''accessToken'' = Some at"
    and "jwt_decode L at = Inr claims"
    and "fromtimestamp L (dict_get claims ''exp'') = Inr t"
  shows "Auth_from_dict L (PDict d) =
           Inr \<lparr>Auth.object_id = Some (dict_get claims ''sub''), Auth.session_token = st,
                Auth.access_token = at, access_token_expires = Some t\<rparr>"
  using assms by (simp add: Auth_from_dict_def Auth_init_def dict_get_def)

theorem valid_token_decode_witness:
  "map_of [(''sessionToken'', PStr ''r:b866''), (''accessToken'', PStr ''valid.jwt'')]
       ''sessionToken'' = Some (PStr ''r:b866'')
   \<and> map_of [(''sessionToken'', PStr ''r:b866''), (''accessToken'', PStr ''valid.jwt'')]
       ''accessToken'' = Some (PStr ''valid.jwt'')
   \<and> jwt_decode mock_libs (PStr ''valid.jwt'')
       = Inr [(''sub'', PStr ''1EqBUC03nK''), (''exp'', PInt 1717315657)]
   \<and> fromtimestamp mock_libs
       (dict_get [(''sub'', PStr ''1EqBUC03nK''), (''exp'', PInt 1717315657)] ''exp'')
       = Inr 1717315657000000
   \<and> Auth_from_dict mock_libs
       (PDict [(''sessionToken'', PStr ''r:b866''), (''accessToken'', PStr ''valid.jwt'')]) =
         Inr \<lparr>Auth.object_id = Some (PStr ''1EqBUC03nK''), Auth.session_token = PStr ''r:b866'',
              Auth.access_token = PStr ''valid.jwt'',
              access_token_expires = Some 1717315657000000\<rparr>"
  using valid_token_decode
          [of "[(''sessionToken'', PStr ''r:b866''), (''accessToken'', PStr ''valid.jwt'')]"
              "PStr ''r:b866''" "PStr ''valid.jwt''" mock_libs
              "[(''sub'', PStr ''1EqBUC03nK''), (''exp'', PInt 1717315657)]" 1717315657000000]
  by (simp add: mock_libs_def mock_jwt_decode_def mock_fromtimestamp_def dict_get_def)

text \<open>
  Claim C4. On an Auth whose \<open>access_token_expires\<close> was derived, \<open>is_access_token_expired\<close>
  is the comparison "current time > \<open>access_token_expires\<close>": true at any time after the
  expiry, false at any time before it. It is a function of the clock and the Auth alone and
  returns only the boolean, so the Auth is not changed.
\<close>
theorem expired_compares_clock_with_expiry:
  assumes "access_token_expires a = Some t"
  shows "is_access_token_expired now a = Inr (now > t)
       \<and> (t < now \<longrightarrow> is_access_token_expired now a = Inr True)
       \<and> (now < t \<longrightarrow> is_access_token_expired now a = Inr False)"
  using assms by (simp add: is_access_token_expired_def)

theorem expired_compares_clock_with_expiry_witness:
  "access_token_expires \<lparr>Auth.object_id = Some (PStr ''1EqBUC03nK''),
        Auth.session_token = PStr ''r:b866'', Auth.access_token = PStr ''valid.jwt'',
        access_token_expires = Some 1717315657000000\<rparr> = Some 1717315657000000
   \<and> (1717315657000000::int) < 1717315657000001
   \<and> is_access_token_expired 1717315657000001
        \<lparr>Auth.object_id = Some (PStr ''1EqBUC03nK''),
         Auth.session_token = PStr ''r:b866'', Auth.access_token = PStr ''valid.jwt'',
         access_token_expires = Some 1717315657000000\<rparr> = Inr True
   \<and> (1717315656999999::int) < 1717315657000000
   \<and> is_access_token_expired 1717315656999999
        \<lparr>Auth.object_id = Some (PStr ''1EqBUC03nK''),
         Auth.session_token = PStr ''r:b866'', Auth.access_token = PStr ''valid.jwt'',
         access_token_expires = Some 1717315657000000\<rparr> = Inr False"
  using expired_compares_clock_with_expiry
          [of "\<lparr>Auth.object_id = Some (PStr ''1EqBUC03nK''),
               Auth.session_token = PStr ''r:b866'', Auth.access_token = PStr ''valid.jwt'',
               access_token_expires = Some 1717315657000000\<rparr>" 1717315657000000
              1717315657000001]
        expired_compares_clock_with_expiry
          [of "\<lparr>Auth.object_id = Some (PStr ''1EqBUC03nK''),
               Auth.session_token = PStr ''r:b866'', Auth.access_token = PStr ''valid.jwt'',
               access_token_expires = Some 1717315657000000\<rparr>" 1717315657000000
              1717315656999999]
  by simp

section \<open>The decoders\<close>

text \<open>
  Claim C5, as stated, fails: on the empty mapping both decoders raise AttributeError,
  because \<open>data.get("statistics")\<close> and \<open>data.get("result")\<close> are \<open>None\<close> and \<open>None\<close> has no
  \<open>get\<close>.
\<close>
theorem decoders_raise_without_sub_object:
  "User_from_dict (PDict []) = Inl AttributeError
   \<and> Statistics_from_dict (PDict []) = Inl AttributeError"
  by (simp add: User_from_dict_def Statistics_from_dict_def and_then_def dict_get_def)

text \<open>
  Claim C5, amended. The decoders are functions of the input mapping alone (they take no
  client and no world, and return a new record). Whenever the \<open>statistics\<close> entry (User) or
  the \<open>result\<close> entry (Statistics) of the input is a mapping, the decoder returns a record
  and does not raise; each field is what \<open>get\<close> gives for its key, on the input mapping or,
  for the four nested User fields and for all Statistics fields, on that inner mapping; and
  \<open>get\<close> gives \<open>None\<close> for every absent key.
\<close>
theorem decoders_lenient_on_absent_keys:
  "(map_of d ''statistics'' = Some (PDict s) \<longrightarrow>
      User_from_dict (PDict d) =
        Inr \<lparr>fourfouroneone_ev_enabled = dict_get d ''4411EvEnabled'',
             fourfouroneone_parking_enabled = dict_get d ''4411ParkingEnabled'',
             fourfouroneone_payment_method_set = dict_get d ''4411PaymentMethodSet'',
             User.access_token = dict_get d ''accessToken'',
             first_name = dict_get d ''firstName'',
             gender = dict_get d ''gender'',
             has_4411_account = dict_get d ''has4411Account'',
             User.object_id = dict_get d ''objectId'',
             parking_enabled = dict_get d ''parkingEnabled'',
             User.session_token = dict_get d ''sessionToken'',
             statistics_top_speed = dict_get s ''topSpeed'',
             statistics_top_sprint = dict_get s ''topSprint'',
             statistics_travel_distance = dict_get s ''travelDistance'',
             statistics_travel_time = dict_get s ''travelTime'',
             username = dict_get d ''username'',
             vehicle_type = dict_get d ''vehicleType''\<rparr>)
   \<and> (map_of d ''result'' = Some (PDict e) \<longrightarrow>
      Statistics_from_dict (PDict d) =
        Inr \<lparr>ambassador = dict_get e ''ambassador'',
             countries_visited = dict_get e ''countries_visited'',
             fines_avoided = dict_get e ''fines_avoided'',
             km_driven = dict_get e ''km_driven'',
             navigation_finished = dict_get e ''navigation_finished'',
             parked_once = dict_get e ''parked_once'',
             provinces_visited = dict_get e ''provinces_visited'',
             recruiter = dict_get e ''recruiter'',
             sec_driven = dict_get e ''sec_driven'',
             times_in_traffic = dict_get e ''times_in_traffic'',
             top_100_sprint_ms = dict_get e ''top_100_sprint_ms'',
             top_consecutive_days = dict_get e ''top_consecutive_days'',
             top_speed = dict_get e ''top_speed'',
             total_ratings = dict_get e ''total_ratings''\<rparr>)
   \<and> (\<forall>m k. map_of m k = None \<longrightarrow> dict_get m k = PNone)"
  using User_from_dict_present [of d s] Statistics_from_dict_present [of d e] dict_get_absent
  by blast

theorem decoders_lenient_on_absent_keys_witness:
  "map_of [(''firstName'', PStr ''Dana''), (''statistics'', PDict [(''topSpeed'', PInt 413)]),
           (''result'', PDict [(''km_driven'', PInt 63550)])] ''statistics''
     = Some (PDict [(''topSpeed'', PInt 413)])
   \<and> map_of [(''firstName'', PStr ''Dana''), (''statistics'', PDict [(''topSpeed'', PInt 413)]),
           (''result'', PDict [(''km_driven'', PInt 63550)])] ''result''
     = Some (PDict [(''km_driven'', PInt 63550)])
   \<and> map_of [(''topSpeed'', PInt 413)] ''topSprint'' = None
   \<and> User_from_dict (PDict [(''firstName'', PStr ''Dana''),
           (''statistics'', PDict [(''topSpeed'', PInt 413)]),
           (''result'', PDict [(''km_driven'', PInt 63550)])]) =
        Inr \<lparr>fourfouroneone_ev_enabled = PNone,
             fourfouroneone_parking_enabled = PNone,
             fourfouroneone_payment_method_set = PNone,
             User.access_token = PNone,
             first_name = PStr ''Dana'',
             gender = PNone,
             has_4411_account = PNone,
             User.object_id = PNone,
             parking_enabled = PNone,
             User.session_token = PNone,
             statistics_top_speed = PInt 413,
             statistics_top_sprint = PNone,
             statistics_travel_distance = PNone,
             statistics_travel_time = PNone,
             username = PNone,
             vehicle_type = PNone\<rparr>
   \<and> Statistics_from_dict (PDict [(''firstName'', PStr ''Dana''),
           (''statistics'', PDict [(''topSpeed'', PInt 413)]),
           (''result'', PDict [(''km_driven'', PInt 63550)])]) =
        Inr \<lparr>ambassador = PNone,
             countries_visited = PNone,
             fines_avoided = PNone,
             km_driven = PInt 63550,
             navigation_finished = PNone,
             parked_once = PNone,
             provinces_visited = PNone,
             recruiter = PNone,
             sec_driven = PNone,
             times_in_traffic = PNone,
             top_100_sprint_ms = PNone,
             top_consecutive_days = PNone,
             top_speed = PNone,
             total_ratings = PNone\<rparr>
   \<and> dict_get [(''topSpeed'', PInt 413)] ''topSprint'' = PNone"
  using decoders_lenient_on_absent_keys
          [of "[(''firstName'', PStr ''Dana''), (''statistics'', PDict [(''topSpeed'', PInt 413)]),
                (''result'', PDict [(''km_driven'', PInt 63550)])]"
              "[(''topSpeed'', PInt 413)]" "[(''km_driven'', PInt 63550)]"]
  by (simp add: dict_get_def)

text \<open>
  Claim C6. For a statistics response whose \<open>result\<close> entry is a mapping, the decoder reads
  every field from that inner mapping (one layer down: not from the response itself, and
  not from a \<open>result\<close> inside the inner mapping), \<open>fines_avoided\<close> to \<open>fines_avoided\<close>,
  \<open>km_driven\<close> to \<open>km_driven\<close> and so on, and the lists under \<open>countries_visited\<close> and
  \<open>provinces_visited\<close> arrive as they are: same elements, same order, duplicates kept.
\<close>
theorem statistics_unwraps_one_envelope:
  assumes "map_of d ''result'' = Some (PDict inner)"
  shows "\<exists>s. Statistics_from_dict (PDict d) = Inr s
     \<and> ambassador s = dict_get inner ''ambassador''
     \<and> countries_visited s = dict_get inner ''countries_visited''
     \<and> fines_avoided s = dict_get inner ''fines_avoided''
     \<and> km_driven s = dict_get inner ''km_driven''
     \<and> navigation_finished s = dict_get inner ''navigation_finished''
     \<and> parked_once s = dict_get inner ''parked_once''
     \<and> provinces_visited s = dict_get inner ''provinces_visited''
     \<and> recruiter s = dict_get inner ''recruiter''
     \<and> sec_driven s = dict_get inner ''sec_driven''
     \<and> times_in_traffic s = dict_get inner ''times_in_traffic''
     \<and> top_100_sprint_ms s = dict_get inner ''top_100_sprint_ms''
     \<and> top_consecutive_days s = dict_get inner ''top_consecutive_days''
     \<and> top_speed s = dict_get inner ''top_speed''
     \<and> total_ratings s = dict_get inner ''total_ratings''
     \<and> (\<forall>cs. map_of inner ''countries_visited'' = Some (PList cs) \<longrightarrow>
            countries_visited s = PList cs)
     \<and> (\<forall>ps. map_of inner ''provinces_visited'' = Some (PList ps) \<longrightarrow>
            provinces_visited s = PList ps)"
  by (simp add: Statistics_from_dict_present [OF assms] dict_get_def)

theorem statistics_unwraps_one_envelope_witness:
  "map_of [(''fines_avoided'', PInt 1),
           (''result'', PDict [(''fines_avoided'', PInt 210), (''km_driven'', PInt 63550),
              (''countries_visited'', PList [PStr ''NL'', PStr ''DE'', PStr ''BE'', PStr ''NL'']),
              (''result'', PDict [(''km_driven'', PInt 2)])])] ''result''
     = Some (PDict [(''fines_avoided'', PInt 210), (''km_driven'', PInt 63550),
              (''countries_visited'', PList [PStr ''NL'', PStr ''DE'', PStr ''BE'', PStr ''NL'']),
              (''result'', PDict [(''km_driven'', PInt 2)])])
   \<and> (\<exists>s. Statistics_from_dict (PDict [(''fines_avoided'', PInt 1),
           (''result'', PDict [(''fines_avoided'', PInt 210), (''km_driven'', PInt 63550),
              (''countries_visited'', PList [PStr ''NL'', PStr ''DE'', PStr ''BE'', PStr ''NL'']),
              (''result'', PDict [(''km_driven'', PInt 2)])])]) = Inr s
        \<and> fines_avoided s = PInt 210 \<and> km_driven s = PInt 63550
        \<and> countries_visited s = PList [PStr ''NL'', PStr ''DE'', PStr ''BE'', PStr ''NL'']
        \<and> provinces_visited s = PNone)"
  using statistics_unwraps_one_envelope
          [of "[(''fines_avoided'', PInt 1),
           (''result'', PDict [(''fines_avoided'', PInt 210), (''km_driven'', PInt 63550),
              (''countries_visited'', PList [PStr ''NL'', PStr ''DE'', PStr ''BE'', PStr ''NL'']),
              (''result'', PDict [(''km_driven'', PInt 2)])])]"
              "[(''fines_avoided'', PInt 210), (''km_driven'', PInt 63550),
              (''countries_visited'', PList [PStr ''NL'', PStr ''DE'', PStr ''BE'', PStr ''NL'']),
              (''result'', PDict [(''km_driven'', PInt 2)])]"]
  by (auto simp: dict_get_def)

section \<open>The client\<close>

text \<open>
  Claim C7. \<open>login\<close> makes one call of the request helper; when the helper returns a body,
  the result of \<open>login\<close> is \<open>Auth.from_dict\<close> of that body, and when the helper raises,
  \<open>login\<close> raises the same exception. In every case the Auth held by the client after the
  call is the Auth it held before.
\<close>
theorem login_keeps_held_auth:
  assumes "login L fm w u p = (r, fm', w')"
  shows "auth fm' = auth fm
     \<and> (\<exists>r0. request L fm w ''parse/login'' METH_POST
                 (PDict [(''_method'', PStr ''GET''), (''username'', u), (''password'', p)])
               = (r0, fm', w')
             \<and> (\<forall>body. r0 = Inr body \<longrightarrow> r = Auth_from_dict L body)
             \<and> (\<forall>e. r0 = Inl e \<longrightarrow> r = Inl e))"
proof -
  from login_calls_request [OF assms] obtain r0 where
    r0: "request L fm w ''parse/login'' METH_POST
           (PDict [(''_method'', PStr ''GET''), (''username'', u), (''password'', p)])
         = (r0, fm', w')"
    and r: "r = and_then r0 (Auth_from_dict L)" by blast
  from request_effect(1) [OF r0] have "auth fm' = auth fm" .
  moreover from r have "\<forall>body. r0 = Inr body \<longrightarrow> r = Auth_from_dict L body"
    by (simp add: and_then_def)
  moreover from r have "\<forall>e. r0 = Inl e \<longrightarrow> r = Inl e"
    by (simp add: and_then_def)
  ultimately show ?thesis using r0 by blast
qed

theorem login_keeps_held_auth_witness:
  "login mock_libs (FM_init None 10 (Some held_auth)) world0 (PStr ''u'') (PStr ''p'') =
     (Inr \<lparr>Auth.object_id = Some (PStr ''1EqBUC03nK''), Auth.session_token = PStr ''r:b866'',
           Auth.access_token = PStr ''valid.jwt'',
           access_token_expires = Some 1717315657000000\<rparr>,
      \<lparr>session = Some 1, close_session = True, request_timeout = 10, auth = Some held_auth\<rparr>,
      \<lparr>next_session = 2, created = [1], closed = {}, sent = [sent_login 1]\<rparr>)
   \<and> auth \<lparr>session = Some 1, close_session = True, request_timeout = 10,
            auth = Some held_auth\<rparr>
       = auth (FM_init None 10 (Some held_auth))
   \<and> Auth_from_dict mock_libs login_body =
       Inr \<lparr>Auth.object_id = Some (PStr ''1EqBUC03nK''), Auth.session_token = PStr ''r:b866'',
            Auth.access_token = PStr ''valid.jwt'',
            access_token_expires = Some 1717315657000000\<rparr>"
  using login_keeps_held_auth [OF mock_login_own] mock_login_own mock_decode_login_body
  by (simp add: FM_init_def)

text \<open>
  Claim C8. Take a client constructed with \<open>FM_init sess t a\<close> in world \<open>w0\<close>, after any
  sequence of calls. \<open>close\<close> returns without an exception, and \<open>__aexit__\<close> is \<open>close\<close>. It
  closes the held session exactly when that session is the one the request helper
  constructed for this client; a client that was given a session still holds that session,
  and after \<open>close\<close> no session has been closed that was not closed in \<open>w0\<close>. A second
  \<open>close\<close> (or \<open>__aexit__\<close>) returns without an exception and changes nothing.
\<close>
theorem close_releases_only_own_session:
  assumes "run L cs (FM_init sess t a, w0) = (fm, w)"
  shows "\<exists>w'. close fm w = (Inr (), fm, w')
     \<and> aexit fm w = close fm w
     \<and> closed w' =
         (case session fm of
            None \<Rightarrow> closed w
          | Some h \<Rightarrow> if created w = created w0 @ [h] then insert h (closed w) else closed w)
     \<and> (sess \<noteq> None \<longrightarrow> session fm = sess \<and> closed w' = closed w0)
     \<and> close fm w' = (Inr (), fm, w')
     \<and> aexit fm w' = (Inr (), fm, w')"
proof -
  obtain r fm' w' where c: "close fm w = (r, fm', w')" by (cases "close fm w")
  note ce = close_effect [OF c]
  from ce(1,2) c have c1: "close fm w = (Inr (), fm, w')" by simp
  have inv: "session_inv w0 (fm, w)" by (rule run_from_init(1) [OF assms])
  have own: "closed w' =
         (case session fm of
            None \<Rightarrow> closed w
          | Some h \<Rightarrow> if created w = created w0 @ [h] then insert h (closed w) else closed w)"
    using ce(6) inv by (auto simp: session_inv_def split: option.splits if_splits)
  have supplied: "sess \<noteq> None \<longrightarrow> session fm = sess \<and> closed w' = closed w0"
  proof
    assume "sess \<noteq> None"
    then obtain h where h: "sess = Some h" by auto
    from run_from_init(2) [OF assms h] have fm: "fm = FM_init sess t a" .
    with h have "session fm = sess" "\<not> close_session fm" by (simp_all add: FM_init_def)
    with inv ce(6) h show "session fm = sess \<and> closed w' = closed w0"
      by (simp add: session_inv_def)
  qed
  have again: "close fm w' = (Inr (), fm, w')"
    using ce(6) by (auto simp: close_def split: option.splits)
  show ?thesis
    unfolding aexit_def using c1 own supplied again by blast
qed

theorem close_releases_only_own_session_witness:
  "run mock_libs [Login (PStr ''u'') (PStr ''p'')] (FM_init None 10 (Some held_auth), world0) =
     (\<lparr>session = Some 1, close_session = True, request_timeout = 10, auth = Some held_auth\<rparr>,
      \<lparr>next_session = 2, created = [1], closed = {}, sent = [sent_login 1]\<rparr>)
   \<and> close \<lparr>session = Some 1, close_session = True, request_timeout = 10, auth = Some held_auth\<rparr>
        \<lparr>next_session = 2, created = [1], closed = {}, sent = [sent_login 1]\<rparr> =
     (Inr (),
      \<lparr>session = Some 1, close_session = True, request_timeout = 10, auth = Some held_auth\<rparr>,
      \<lparr>next_session = 2, created = [1], closed = {1}, sent = [sent_login 1]\<rparr>)
   \<and> close \<lparr>session = Some 1, close_session = True, request_timeout = 10, auth = Some held_auth\<rparr>
        \<lparr>next_session = 2, created = [1], closed = {1}, sent = [sent_login 1]\<rparr> =
     (Inr (),
      \<lparr>session = Some 1, close_session = True, request_timeout = 10, auth = Some held_auth\<rparr>,
      \<lparr>next_session = 2, created = [1], closed = {1}, sent = [sent_login 1]\<rparr>)
   \<and> run mock_libs [Login (PStr ''u'') (PStr ''p''), Close]
        (FM_init (Some 0) 10 (Some held_auth), world0) =
     (\<lparr>session = Some 0, close_session = False, request_timeout = 10, auth = Some held_auth\<rparr>,
      \<lparr>next_session = 1, created = [], closed = {}, sent = [sent_login 0]\<rparr>)
   \<and> Some (0::nat) \<noteq> None
   \<and> close \<lparr>session = Some 0, close_session = False, request_timeout = 10, auth = Some held_auth\<rparr>
        \<lparr>next_session = 1, created = [], closed = {}, sent = [sent_login 0]\<rparr> =
     (Inr (),
      \<lparr>session = Some 0, close_session = False, request_timeout = 10, auth = Some held_auth\<rparr>,
      \<lparr>next_session = 1, created = [], closed = {}, sent = [sent_login 0]\<rparr>)"
  using close_releases_only_own_session [OF mock_run_own]
        close_releases_only_own_session [OF mock_run_supplied]
        mock_run_own mock_run_supplied
  by (auto simp: world0_def close_def)

text \<open>
  Claim C9. Every call of the request helper sends exactly one request, whose headers are
  \<open>Content-Type: application/json\<close> and, exactly when the client holds an Auth,
  \<open>x-parse-session-token\<close> with that Auth's \<open>session_token\<close>. The same holds for the request
  of any operation of the client (login included): an operation sends nothing or one request
  with these headers, decided by the held Auth and not by the operation.
\<close>
theorem request_headers_follow_auth:
  "(request L fm w path m data = (r, fm', w') \<longrightarrow>
      (\<exists>req. sent w' = sent w @ [req]
         \<and> r_headers req =
             (case auth fm of
                None \<Rightarrow> [(''Content-Type'', PStr ''application/json'')]
              | Some a \<Rightarrow> [(''Content-Type'', PStr ''application/json''),
                           (''x-parse-session-token'', Auth.session_token a)])))
   \<and> (exec L c (fm, w) = (out, fm2, w2) \<longrightarrow>
      sent w2 = sent w
      \<or> (\<exists>req. sent w2 = sent w @ [req]
         \<and> r_headers req =
             (case auth fm of
                None \<Rightarrow> [(''Content-Type'', PStr ''application/json'')]
              | Some a \<Rightarrow> [(''Content-Type'', PStr ''application/json''),
                           (''x-parse-session-token'', Auth.session_token a)])))"
proof (intro conjI impI)
  assume "request L fm w path m data = (r, fm', w')"
  from request_effect(6) [OF this] show "\<exists>req. sent w' = sent w @ [req]
         \<and> r_headers req =
             (case auth fm of
                None \<Rightarrow> [(''Content-Type'', PStr ''application/json'')]
              | Some a \<Rightarrow> [(''Content-Type'', PStr ''application/json''),
                           (''x-parse-session-token'', Auth.session_token a)])"
    by (simp add: build_headers_eq)
next
  assume e: "exec L c (fm, w) = (out, fm2, w2)"
  from exec_cases [OF e] consider
      "fm2 = fm \<and> w2 = w"
    | r0 path' m' data' where "request L fm w path' m' data' = (r0, fm2, w2)"
    | r0 where "close fm w = (r0, fm2, w2)" by blast
  then show "sent w2 = sent w
      \<or> (\<exists>req. sent w2 = sent w @ [req]
         \<and> r_headers req =
             (case auth fm of
                None \<Rightarrow> [(''Content-Type'', PStr ''application/json'')]
              | Some a \<Rightarrow> [(''Content-Type'', PStr ''application/json''),
                           (''x-parse-session-token'', Auth.session_token a)]))"
  proof cases
    case 1
    then show ?thesis by simp
  next
    case 2
    from request_effect(6) [OF 2] show ?thesis by (simp add: build_headers_eq)
  next
    case 3
    from close_effect(4) [OF 3] show ?thesis by simp
  qed
qed

theorem request_headers_follow_auth_witness:
  "request mock_libs (FM_init None 10 (Some held_auth)) world0 ''parse/login'' METH_POST
     (PDict [(''_method'', PStr ''GET''), (''username'', PStr ''u''), (''password'', PStr ''p'')])
   = (Inr login_body,
      \<lparr>session = Some 1, close_session = True, request_timeout = 10, auth = Some held_auth\<rparr>,
      \<lparr>next_session = 2, created = [1], closed = {}, sent = [sent_login 1]\<rparr>)
   \<and> exec mock_libs (Login (PStr ''u'') (PStr ''p''))
        (FM_init None 10 (Some held_auth), world0) =
     (Returned,
      \<lparr>session = Some 1, close_session = True, request_timeout = 10, auth = Some held_auth\<rparr>,
      \<lparr>next_session = 2, created = [1], closed = {}, sent = [sent_login 1]\<rparr>)
   \<and> r_headers (sent_login 1) =
       [(''Content-Type'', PStr ''application/json''),
        (''x-parse-session-token'', Auth.session_token held_auth)]"
  using request_headers_follow_auth
          [of mock_libs "FM_init None 10 (Some held_auth)" world0 "''parse/login''" METH_POST
              "PDict [(''_method'', PStr ''GET''), (''username'', PStr ''u''),
                      (''password'', PStr ''p'')]"
              "Inr login_body"
              "\<lparr>session = Some 1, close_session = True, request_timeout = 10,
                auth = Some held_auth\<rparr>"
              "\<lparr>next_session = 2, created = [1], closed = {}, sent = [sent_login 1]\<rparr>"
              "Login (PStr ''u'') (PStr ''p'')" Returned
              "\<lparr>session = Some 1, close_session = True, request_timeout = 10,
                auth = Some held_auth\<rparr>"
              "\<lparr>next_session = 2, created = [1], closed = {}, sent = [sent_login 1]\<rparr>"]
        mock_request_own mock_exec_own
  by (simp add: FM_init_def world0_def)

text \<open>
  Claim C10. Every operation keeps \<open>session_inv\<close>. A call of the request helper that finds
  no session constructs exactly one, holds it and sets the flag; a call that finds a session
  keeps that session and the flag, and constructs nothing. So after any sequence of calls on
  a client constructed by \<open>FM_init\<close>: if the flag is set, the client was given no session and
  holds the one session the helper has constructed since; if it is not set, the helper has
  constructed none; and a client that was given a session still holds it, with the flag
  not set.
\<close>
theorem session_ownership_invariant:
  "(session_inv w0 (fm, w) \<and> exec L c (fm, w) = (out, fm1, w1) \<longrightarrow> session_inv w0 (fm1, w1))
   \<and> (request L fm w path m data = (r, fm', w') \<longrightarrow>
        (case session fm of
           None \<Rightarrow> session fm' = Some (next_session w) \<and> close_session fm'
                    \<and> created w' = created w @ [next_session w]
         | Some h \<Rightarrow> session fm' = Some h \<and> close_session fm' = close_session fm
                    \<and> created w' = created w))
   \<and> (run L cs (FM_init sess t a, w0) = (fm2, w2) \<longrightarrow>
        (close_session fm2 \<longrightarrow>
           sess = None \<and> (\<exists>h. session fm2 = Some h \<and> created w2 = created w0 @ [h]))
        \<and> (\<not> close_session fm2 \<longrightarrow> created w2 = created w0)
        \<and> (sess \<noteq> None \<longrightarrow> session fm2 = sess \<and> \<not> close_session fm2))"
proof (intro conjI impI)
  assume "session_inv w0 (fm, w) \<and> exec L c (fm, w) = (out, fm1, w1)"
  then show "session_inv w0 (fm1, w1)" using exec_session_inv by blast
next
  assume q: "request L fm w path m data = (r, fm', w')"
  show "case session fm of
           None \<Rightarrow> session fm' = Some (next_session w) \<and> close_session fm'
                    \<and> created w' = created w @ [next_session w]
         | Some h \<Rightarrow> session fm' = Some h \<and> close_session fm' = close_session fm
                    \<and> created w' = created w"
    using request_effect(4) [OF q] request_effect(5) [OF q]
    by (auto split: option.splits)
next
  assume q: "run L cs (FM_init sess t a, w0) = (fm2, w2)"
  note inv = run_from_init(1) [OF q]
  have fixed: "sess \<noteq> None \<Longrightarrow> session fm2 = sess \<and> \<not> close_session fm2"
  proof -
    assume "sess \<noteq> None"
    then obtain h where h: "sess = Some h" by auto
    from run_from_init(2) [OF q h] show ?thesis by (simp add: FM_init_def)
  qed
  { assume f: "close_session fm2"
    with fixed have "sess = None" by blast
    moreover from inv f have "\<exists>h. session fm2 = Some h \<and> created w2 = created w0 @ [h]"
      by (auto simp: session_inv_def split: option.splits)
    ultimately show "sess = None" and "\<exists>h. session fm2 = Some h \<and> created w2 = created w0 @ [h]"
      by blast+ }
  { assume "\<not> close_session fm2"
    with inv show "created w2 = created w0" by (simp add: session_inv_def) }
  { assume "sess \<noteq> None"
    with fixed show "session fm2 = sess" and "\<not> close_session fm2" by blast+ }
qed

theorem session_ownership_invariant_witness:
  "session_inv world0 (FM_init None 10 (Some held_auth), world0)
   \<and> exec mock_libs (Login (PStr ''u'') (PStr ''p''))
        (FM_init None 10 (Some held_auth), world0) =
     (Returned,
      \<lparr>session = Some 1, close_session = True, request_timeout = 10, auth = Some held_auth\<rparr>,
      \<lparr>next_session = 2, created = [1], closed = {}, sent = [sent_login 1]\<rparr>)
   \<and> session_inv world0
       (\<lparr>session = Some 1, close_session = True, request_timeout = 10, auth = Some held_auth\<rparr>,
        \<lparr>next_session = 2, created = [1], closed = {}, sent = [sent_login 1]\<rparr>)
   \<and> request mock_libs (FM_init None 10 (Some held_auth)) world0 ''parse/login'' METH_POST
        (PDict [(''_method'', PStr ''GET''), (''username'', PStr ''u''),
                (''password'', PStr ''p'')])
     = (Inr login_body,
        \<lparr>session = Some 1, close_session = True, request_timeout = 10, auth = Some held_auth\<rparr>,
        \<lparr>next_session = 2, created = [1], closed = {}, sent = [sent_login 1]\<rparr>)
   \<and> session (FM_init None 10 (Some held_auth)) = None
   \<and> next_session world0 = 1
   \<and> run mock_libs [Login (PStr ''u'') (PStr ''p'')]
        (FM_init None 10 (Some held_auth), world0) =
     (\<lparr>session = Some 1, close_session = True, request_timeout = 10, auth = Some held_auth\<rparr>,
      \<lparr>next_session = 2, created = [1], closed = {}, sent = [sent_login 1]\<rparr>)
   \<and> created world0 @ [1] = [1]
   \<and> run mock_libs [Login (PStr ''u'') (PStr ''p''), Close]
        (FM_init (Some 0) 10 (Some held_auth), world0) =
     (\<lparr>session = Some 0, close_session = False, request_timeout = 10, auth = Some held_auth\<rparr>,
      \<lparr>next_session = 1, created = [], closed = {}, sent = [sent_login 0]\<rparr>)
   \<and> Some (0::nat) \<noteq> None
   \<and> created world0 = []"
  using session_ownership_invariant
          [of world0 "FM_init None 10 (Some held_auth)" world0 mock_libs
              "Login (PStr ''u'') (PStr ''p'')" Returned
              "\<lparr>session = Some 1, close_session = True, request_timeout = 10,
                auth = Some held_auth\<rparr>"
              "\<lparr>next_session = 2, created = [1], closed = {}, sent = [sent_login 1]\<rparr>"
              "''parse/login''" METH_POST
              "PDict [(''_method'', PStr ''GET''), (''username'', PStr ''u''),
                      (''password'', PStr ''p'')]"
              "Inr login_body"
              "\<lparr>session = Some 1, close_session = True, request_timeout = 10,
                auth = Some held_auth\<rparr>"
              "\<lparr>next_session = 2, created = [1], closed = {}, sent = [sent_login 1]\<rparr>"
              "[Login (PStr ''u'') (PStr ''p'')]" None 10 "Some held_auth"
              "\<lparr>session = Some 1, close_session = True, request_timeout = 10,
                auth = Some held_auth\<rparr>"
              "\<lparr>next_session = 2, created = [1], closed = {}, sent = [sent_login 1]\<rparr>"]
        session_ownership_invariant
          [of world0 "FM_init (Some 0) 10 (Some held_auth)" world0 mock_libs
              "Login (PStr ''u'') (PStr ''p'')" Returned
              "\<lparr>session = Some 0, close_session = False, request_timeout = 10,
                auth = Some held_auth\<rparr>"
              "\<lparr>next_session = 1, created = [], closed = {}, sent = [sent_login 0]\<rparr>"
              "''parse/login''" METH_POST
              "PDict [(''_method'', PStr ''GET''), (''username'', PStr ''u''),
                      (''password'', PStr ''p'')]"
              "Inr login_body"
              "\<lparr>session = Some 0, close_session = False, request_timeout = 10,
                auth = Some held_auth\<rparr>"
              "\<lparr>next_session = 1, created = [], closed = {}, sent = [sent_login 0]\<rparr>"
              "[Login (PStr ''u'') (PStr ''p''), Close]" "Some 0" 10 "Some held_auth"
              "\<lparr>session = Some 0, close_session = False, request_timeout = 10,
                auth = Some held_auth\<rparr>"
              "\<lparr>next_session = 1, created = [], closed = {}, sent = [sent_login 0]\<rparr>"]
        mock_request_own mock_exec_own mock_run_own mock_run_supplied
  by (simp add: session_inv_def FM_init_def world0_def)

end
